theory Spec2Isabelle
  imports Complex_Main
begin

section \<open>Values, exceptions and the third-party libraries\<close>

text \<open>
  The module \<^verbatim>\<open>deployml/keras/train/training.py\<close> is a class \<^verbatim>\<open>TrainingBase\<close> whose methods
  sequence calls into pandas, scikit-learn, imbalanced-learn, numpy and a Keras model.
  The embedding keeps the methods as they are written (assignments to fields of
  \<^verbatim>\<open>self\<close>, in the order of the source) and takes the library functions as a
  record of parameters. A Python exception is a value of type \<open>exn\<close>; a method that
  raises half-way returns the exception together with the object as the assignments
  before the raise left it.
\<close>

type_synonym cell = real

datatype exn =
    AttributeError
  | TypeError
  | KeyError
  | ValueError
  | IndexError
  | OtherError string

text \<open>
  The values that the fields of the object hold: Python's \<^verbatim>\<open>None\<close>, a pandas table
  (column labels, and the rows with their index label) or a numpy array (rows without
  labels). A pandas \<^verbatim>\<open>Series\<close> is kept as a table of one column and a vector as an
  array of one column; the wrapper never computes with the cells.
\<close>

datatype pydata =
    PyNone
  | DataFrame "string list" "(nat \<times> cell list) list"
  | NdArray "cell list list"

fun nrows :: "pydata \<Rightarrow> nat" where
  "nrows PyNone = 0"
| "nrows (DataFrame cs rs) = length rs"
| "nrows (NdArray vs) = length vs"


fun take_rows :: "pydata \<Rightarrow> nat list \<Rightarrow> pydata" where
  "take_rows PyNone ps = PyNone"
| "take_rows (DataFrame cs rs) ps = DataFrame cs (map ((!) rs) ps)"
| "take_rows (NdArray vs) ps = NdArray (map ((!) vs) ps)"

text \<open>\<^verbatim>\<open>frame.drop(label, axis=1)\<close>: a new table without the columns of that label.\<close>

definition keep_cells :: "(string \<Rightarrow> bool) \<Rightarrow> string list \<Rightarrow> cell list \<Rightarrow> cell list" where
  "keep_cells p cs vs = map snd (filter (\<lambda>cv. p (fst cv)) (zip cs vs))"

fun drop_column :: "pydata \<Rightarrow> string option \<Rightarrow> exn + pydata" where
  "drop_column PyNone l = Inl AttributeError"
| "drop_column (NdArray vs) l = Inl AttributeError"
| "drop_column (DataFrame cs rs) None = Inl ValueError"
| "drop_column (DataFrame cs rs) (Some c) =
     (if c \<in> set cs
      then Inr (DataFrame (filter (\<lambda>k. k \<noteq> c) cs)
                  (map (\<lambda>r. (fst r, keep_cells (\<lambda>k. k \<noteq> c) cs (snd r))) rs))
      else Inl KeyError)"

text \<open>\<^verbatim>\<open>frame[label]\<close>: the columns of that label, with the index of the table.\<close>

fun getitem :: "pydata \<Rightarrow> string option \<Rightarrow> exn + pydata" where
  "getitem PyNone l = Inl TypeError"
| "getitem (NdArray vs) l = Inl IndexError"
| "getitem (DataFrame cs rs) None = Inl KeyError"
| "getitem (DataFrame cs rs) (Some c) =
     (if c \<in> set cs
      then Inr (DataFrame (filter (\<lambda>k. k = c) cs)
                  (map (\<lambda>r. (fst r, keep_cells (\<lambda>k. k = c) cs (snd r))) rs))
      else Inl KeyError)"

text \<open>\<^verbatim>\<open>list(frame.columns.values)\<close>\<close>

fun columns_of :: "pydata \<Rightarrow> string list" where
  "columns_of (DataFrame cs rs) = cs"
| "columns_of PyNone = []"
| "columns_of (NdArray vs) = []"

text \<open>\<^verbatim>\<open>np.array(v)\<close>: the cells without their labels.\<close>

fun np_array :: "pydata \<Rightarrow> pydata" where
  "np_array (DataFrame cs rs) = NdArray (map snd rs)"
| "np_array (NdArray vs) = NdArray vs"
| "np_array PyNone = NdArray []"

text \<open>
  A scaler object of scikit-learn: its class, and the data it was last fitted on
  (\<open>None\<close> while it is unfitted). \<^verbatim>\<open>fit\<close> changes the object in place.
\<close>

datatype scaler_kind = StandardScaler | MinMaxScaler

record scaler =
  kind :: scaler_kind
  fitted_on :: "pydata option"

definition new_scaler :: "scaler_kind \<Rightarrow> scaler" where
  "new_scaler k = \<lparr>kind = k, fitted_on = None\<rparr>"

text \<open>
  The library functions the methods call. Each may raise. \<open>'m\<close> is the state of the
  wrapped model object and \<open>'h\<close> the history object that its \<^verbatim>\<open>fit\<close> returns.
  \<^item> \<open>train_test_split X y test_size random_state\<close>
  \<^item> \<open>smote_fit_sample ratio X y\<close> is \<^verbatim>\<open>SMOTE(ratio=ratio).fit_sample(X, y)\<close>
  \<^item> \<open>scaler_fit sc X\<close> is the check that \<^verbatim>\<open>sc.fit(X)\<close> makes before it stores the fit
  \<^item> \<open>model_fit m X y validation_split epochs batch_size verbose\<close> returns the history
    and the model as the fit left it
\<close>

record ('m, 'h) libs =
  train_test_split :: "pydata \<Rightarrow> pydata \<Rightarrow> real \<Rightarrow> nat
                         \<Rightarrow> exn + (pydata \<times> pydata \<times> pydata \<times> pydata)"
  smote_fit_sample :: "real \<Rightarrow> pydata \<Rightarrow> pydata \<Rightarrow> exn + (pydata \<times> pydata)"
  scaler_fit :: "scaler \<Rightarrow> pydata \<Rightarrow> exn option"
  scaler_transform :: "scaler \<Rightarrow> pydata \<Rightarrow> exn + pydata"
  model_fit :: "'m \<Rightarrow> pydata \<Rightarrow> pydata \<Rightarrow> real \<Rightarrow> int \<Rightarrow> int \<Rightarrow> int \<Rightarrow> (exn + 'h) \<times> 'm"
  model_predict :: "'m \<Rightarrow> pydata list \<Rightarrow> exn + cell list list"
  model_predict_classes :: "'m \<Rightarrow> pydata \<Rightarrow> exn + pydata"
  classification_report :: "pydata \<Rightarrow> pydata \<Rightarrow> exn + string"

section \<open>The class TrainingBase\<close>

text \<open>
  The fields that \<^verbatim>\<open>train\<close>, \<^verbatim>\<open>evaluate_outcome\<close> and \<^verbatim>\<open>calculate\<close> read or write, and
  the flag \<^verbatim>\<open>trained\<close>. The other fields of \<^verbatim>\<open>__init__\<close> (\<^verbatim>\<open>auc\<close>, \<^verbatim>\<open>cross_val\<close>,
  \<^verbatim>\<open>outcome_metrics\<close>, \<^verbatim>\<open>scaling_title\<close>, \<^verbatim>\<open>support_vector\<close>, \<^verbatim>\<open>best_epoch\<close>,
  \<^verbatim>\<open>best_model\<close>) and those of the base class are touched by none of the three.
\<close>

record ('m, 'h) TrainingBase =
  model :: 'm
  data :: pydata
  outcome_pointer :: "string option"
  X :: pydata
  scaled_inputs :: bool
  scaling_tool :: "scaler option"
  y :: pydata
  X_train :: pydata
  X_test :: pydata
  y_train :: pydata
  y_test :: pydata
  predictions :: pydata
  trained :: bool
  history :: "'h option"
  X_report :: pydata
  y_report :: pydata
  general_report :: string
  input_order :: "string list option"

definition TrainingBase_init :: "'m \<Rightarrow> ('m, 'h) TrainingBase" where
  "TrainingBase_init selected_model =
     \<lparr>model = selected_model,
      data = PyNone,
      outcome_pointer = None,
      X = PyNone,
      scaled_inputs = False,
      scaling_tool = None,
      y = PyNone,
      X_train = PyNone,
      X_test = PyNone,
      y_train = PyNone,
      y_test = PyNone,
      predictions = PyNone,
      trained = False,
      history = None,
      X_report = PyNone,
      y_report = PyNone,
      general_report = ''General Report not generated when model was trained'',
      input_order = None\<rparr>"

text \<open>Statements in sequence: the next one runs only if nothing was raised so far.\<close>

definition then_do :: "exn option \<times> 's \<Rightarrow> ('s \<Rightarrow> exn option \<times> 's) \<Rightarrow> exn option \<times> 's" where
  "then_do r f = (case fst r of None \<Rightarrow> f (snd r) | Some e \<Rightarrow> r)"

subsection \<open>train\<close>

text \<open>Lines 57 to 62: features, target, column order and the split.\<close>

definition split_data ::
  "('m, 'h) libs \<Rightarrow> ('m, 'h) TrainingBase \<Rightarrow> exn option \<times> ('m, 'h) TrainingBase" where
  "split_data lib self =
     (case drop_column (data self) (outcome_pointer self) of
        Inl e \<Rightarrow> (Some e, self)
      | Inr x \<Rightarrow>
          (let self = self\<lparr>X := x\<rparr> in
           case getitem (data self) (outcome_pointer self) of
             Inl e \<Rightarrow> (Some e, self)
           | Inr t \<Rightarrow>
               (let self = self\<lparr>y := t\<rparr>;
                    self = self\<lparr>input_order := Some (columns_of (X self))\<rparr> in
                case train_test_split lib (X self) (y self) (33 / 100) 101 of
                  Inl e \<Rightarrow> (Some e, self)
                | Inr (a, b, c, d) \<Rightarrow>
                    (None, self\<lparr>X_train := a, X_test := b, y_train := c, y_test := d\<rparr>))))"

text \<open>Lines 64 to 66: the optional oversampling of the training subset.\<close>

definition resample_data ::
  "('m, 'h) libs \<Rightarrow> ('m, 'h) TrainingBase \<Rightarrow> bool \<Rightarrow> real
     \<Rightarrow> exn option \<times> ('m, 'h) TrainingBase" where
  "resample_data lib self resample resample_ratio =
     (if resample then
        (case smote_fit_sample lib resample_ratio (X_train self) (y_train self) of
           Inl e \<Rightarrow> (Some e, self)
         | Inr (a, c) \<Rightarrow> (None, self\<lparr>X_train := a, y_train := c\<rparr>))
      else (None, self))"

text \<open>Lines 68 and 69.\<close>

definition report_data :: "('m, 'h) TrainingBase \<Rightarrow> exn option \<times> ('m, 'h) TrainingBase" where
  "report_data self =
     (None, self\<lparr>X_report := np_array (X_test self), y_report := np_array (y_test self)\<rparr>)"

text \<open>
  Lines 73 to 78: the choice of the scaler. \<^verbatim>\<open>normalize\<close> is a function of
  scikit-learn with a required argument, so \<^verbatim>\<open>normalize()\<close> raises \<^verbatim>\<open>TypeError\<close>; a
  string that is none of the three leaves the field as it was.
\<close>

definition choose_scaler ::
  "('m, 'h) TrainingBase \<Rightarrow> string \<Rightarrow> exn option \<times> ('m, 'h) TrainingBase" where
  "choose_scaler self tool =
     (if tool = ''standard'' then (None, self\<lparr>scaling_tool := Some (new_scaler StandardScaler)\<rparr>)
      else if tool = ''min max'' then (None, self\<lparr>scaling_tool := Some (new_scaler MinMaxScaler)\<rparr>)
      else if tool = ''normalize'' then (Some TypeError, self)
      else (None, self))"

text \<open>Lines 79 to 81: fit on the training features, transform both subsets.\<close>

definition apply_scaler ::
  "('m, 'h) libs \<Rightarrow> ('m, 'h) TrainingBase \<Rightarrow> exn option \<times> ('m, 'h) TrainingBase" where
  "apply_scaler lib self =
     (case scaling_tool self of
        None \<Rightarrow> (Some AttributeError, self)
      | Some sc \<Rightarrow>
          (case scaler_fit lib sc (X_train self) of
             Some e \<Rightarrow> (Some e, self)
           | None \<Rightarrow>
               (let sc = sc\<lparr>fitted_on := Some (X_train self)\<rparr>;
                    self = self\<lparr>scaling_tool := Some sc\<rparr> in
                case scaler_transform lib sc (X_train self) of
                  Inl e \<Rightarrow> (Some e, self)
                | Inr a \<Rightarrow>
                    (let self = self\<lparr>X_train := a\<rparr> in
                     case scaler_transform lib sc (X_test self) of
                       Inl e \<Rightarrow> (Some e, self)
                     | Inr b \<Rightarrow> (None, self\<lparr>X_test := b\<rparr>)))))"

text \<open>Lines 71 to 83.\<close>

definition scale_data ::
  "('m, 'h) libs \<Rightarrow> ('m, 'h) TrainingBase \<Rightarrow> bool \<Rightarrow> string
     \<Rightarrow> exn option \<times> ('m, 'h) TrainingBase" where
  "scale_data lib self scale tool =
     (if scale then
        then_do (choose_scaler (self\<lparr>scaled_inputs := True\<rparr>) tool) (apply_scaler lib)
      else (None, self\<lparr>scaled_inputs := False\<rparr>))"

text \<open>Lines 85 and 86: the fit of the wrapped model, which changes the model.\<close>

definition fit_model ::
  "('m, 'h) libs \<Rightarrow> ('m, 'h) TrainingBase \<Rightarrow> int \<Rightarrow> int \<Rightarrow> int
     \<Rightarrow> exn option \<times> ('m, 'h) TrainingBase" where
  "fit_model lib self epochs batch_size verbose =
     (case model_fit lib (model self) (X_train self) (y_train self) (33 / 100)
             epochs batch_size verbose of
        (Inl e, m) \<Rightarrow> (Some e, self\<lparr>model := m\<rparr>)
      | (Inr h, m) \<Rightarrow> (None, self\<lparr>model := m, history := Some h\<rparr>))"

text \<open>Lines 57 to 69, everything before the scaling.\<close>

definition prepare_data ::
  "('m, 'h) libs \<Rightarrow> ('m, 'h) TrainingBase \<Rightarrow> bool \<Rightarrow> real
     \<Rightarrow> exn option \<times> ('m, 'h) TrainingBase" where
  "prepare_data lib self resample resample_ratio =
     then_do (then_do (split_data lib self)
                (\<lambda>self. resample_data lib self resample resample_ratio))
       report_data"

definition train ::
  "('m, 'h) libs \<Rightarrow> ('m, 'h) TrainingBase \<Rightarrow> bool \<Rightarrow> string \<Rightarrow> bool \<Rightarrow> real
     \<Rightarrow> int \<Rightarrow> int \<Rightarrow> int \<Rightarrow> exn option \<times> ('m, 'h) TrainingBase" where
  "train lib self scale tool resample resample_ratio epochs batch_size verbose =
     then_do (then_do (prepare_data lib self resample resample_ratio)
                (\<lambda>self. scale_data lib self scale tool))
       (\<lambda>self. fit_model lib self epochs batch_size verbose)"

subsection \<open>evaluate_outcome\<close>

text \<open>
  The result is what the method returns (it has no \<^verbatim>\<open>return\<close> statement, so Python's
  \<^verbatim>\<open>None\<close>) or the exception, then the object, then the lines printed.
\<close>

definition evaluate_outcome ::
  "('m, 'h) libs \<Rightarrow> ('m, 'h) TrainingBase
     \<Rightarrow> (exn + pydata) \<times> ('m, 'h) TrainingBase \<times> string list" where
  "evaluate_outcome lib self =
     (case model_predict_classes lib (model self) (X_test self) of
        Inl e \<Rightarrow> (Inl e, self, [])
      | Inr p \<Rightarrow>
          (let self = self\<lparr>predictions := p\<rparr> in
           case classification_report lib (y_test self) (predictions self) of
             Inl e \<Rightarrow> (Inl e, self, [])
           | Inr rep \<Rightarrow>
               (let self = self\<lparr>general_report := rep\<rparr> in
                (Inr PyNone, self, [general_report self]))))"

subsection \<open>calculate\<close>

text \<open>\<^verbatim>\<open>self.model.predict([input_array])[0][0]\<close>\<close>

definition predict_first :: "('m, 'h) libs \<Rightarrow> 'm \<Rightarrow> pydata \<Rightarrow> exn + cell" where
  "predict_first lib m input_array =
     (case model_predict lib m [input_array] of
        Inl e \<Rightarrow> Inl e
      | Inr [] \<Rightarrow> Inl IndexError
      | Inr ([] # _) \<Rightarrow> Inl IndexError
      | Inr ((p # _) # _) \<Rightarrow> Inr p)"

definition calculate ::
  "('m, 'h) libs \<Rightarrow> ('m, 'h) TrainingBase \<Rightarrow> pydata \<Rightarrow> bool \<Rightarrow> bool \<Rightarrow> exn + cell" where
  "calculate lib self input_array happening override =
     (case (if scaled_inputs self \<and> \<not> override
            then (case scaling_tool self of
                    None \<Rightarrow> Inl AttributeError
                  | Some sc \<Rightarrow> scaler_transform lib sc input_array)
            else Inr input_array) of
        Inl e \<Rightarrow> Inl e
      | Inr input_array \<Rightarrow>
          (if happening then predict_first lib (model self) input_array
           else predict_first lib (model self) input_array))"


section \<open>The contract of the split, and agreement of two objects\<close>







section \<open>A small library and dataset to run the methods on\<close>

text \<open>
  Stand-ins for the library functions, simple enough to evaluate: the split takes the
  first \<open>\<lceil>test_size * n\<rceil>\<close> rows as the test subset, the oversampler rejects a ratio
  outside \<open>(0, 1]\<close> and classes that are already balanced, a fitted scaler subtracts one
  from every cell, the model counts the epochs it was fitted for, and prediction and
  report reject \<^verbatim>\<open>None\<close>.
\<close>

definition stub_split :: "pydata \<Rightarrow> pydata \<Rightarrow> real \<Rightarrow> nat \<Rightarrow> exn + (pydata \<times> pydata \<times> pydata \<times> pydata)" where
  "stub_split x t test_size random_state =
     (let n = nrows x; k = nat \<lceil>test_size * real n\<rceil> in
      if test_size \<le> 0 \<or> 1 \<le> test_size \<or> n \<le> k then Inl ValueError
      else Inr (take_rows x [k..<n], take_rows x [0..<k],
                take_rows t [k..<n], take_rows t [0..<k]))"

fun class_count :: "cell \<Rightarrow> pydata \<Rightarrow> nat" where
  "class_count v (DataFrame cs rs) = length (filter (\<lambda>r. snd r = [v]) rs)"
| "class_count v (NdArray vs) = length (filter (\<lambda>r. r = [v]) vs)"
| "class_count v PyNone = 0"

definition stub_smote :: "real \<Rightarrow> pydata \<Rightarrow> pydata \<Rightarrow> exn + (pydata \<times> pydata)" where
  "stub_smote ratio x t =
     (if ratio \<le> 0 \<or> 1 < ratio then Inl ValueError
      else if class_count 0 t = class_count 1 t then Inl ValueError
      else Inr (np_array x, np_array t))"

fun shift_cells :: "pydata \<Rightarrow> pydata" where
  "shift_cells (DataFrame cs rs) = NdArray (map (\<lambda>r. map (\<lambda>v. v - 1) (snd r)) rs)"
| "shift_cells (NdArray vs) = NdArray (map (map (\<lambda>v. v - 1)) vs)"
| "shift_cells PyNone = PyNone"

definition stub_transform :: "scaler \<Rightarrow> pydata \<Rightarrow> exn + pydata" where
  "stub_transform sc x =
     (case fitted_on sc of
        None \<Rightarrow> Inl (OtherError ''NotFittedError'')
      | Some f \<Rightarrow> (if x = PyNone then Inl ValueError else Inr (shift_cells x)))"

fun stub_predict :: "nat \<Rightarrow> pydata list \<Rightarrow> exn + cell list list" where
  "stub_predict m [NdArray ((v # vs) # rs)] = Inr [[v]]"
| "stub_predict m xs = Inl ValueError"

fun stub_predict_classes :: "nat \<Rightarrow> pydata \<Rightarrow> exn + pydata" where
  "stub_predict_classes m PyNone = Inl ValueError"
| "stub_predict_classes m x = Inr (NdArray (replicate (nrows x) [1]))"

fun stub_report :: "pydata \<Rightarrow> pydata \<Rightarrow> exn + string" where
  "stub_report PyNone p = Inl ValueError"
| "stub_report t PyNone = Inl ValueError"
| "stub_report t p = Inr ''precision recall f1-score support''"

definition stub_lib :: "(nat, int) libs" where
  "stub_lib =
     \<lparr>train_test_split = stub_split,
      smote_fit_sample = stub_smote,
      scaler_fit = (\<lambda>sc x. if x = PyNone then Some ValueError else None),
      scaler_transform = stub_transform,
      model_fit = (\<lambda>m x t vs ep bs vb. if ep < 0 then (Inl ValueError, m) else (Inr ep, m + nat ep)),
      model_predict = stub_predict,
      model_predict_classes = stub_predict_classes,
      classification_report = stub_report\<rparr>"

definition demo_data :: pydata where
  "demo_data = DataFrame [''age'', ''sick''] [(0, [30, 0]), (1, [40, 1]), (2, [50, 1]), (3, [60, 0])]"

definition demo_self :: "(nat, int) TrainingBase" where
  "demo_self = (TrainingBase_init 0)\<lparr>data := demo_data, outcome_pointer := Some ''sick''\<rparr>"



definition demo_plain :: "(nat, int) TrainingBase" where
  "demo_plain = snd (train stub_lib demo_self False ''standard'' False 1 5 32 0)"

definition demo_scaled :: "(nat, int) TrainingBase" where
  "demo_scaled = snd (train stub_lib demo_self True ''standard'' False 1 5 32 0)"

section \<open>Lemmas\<close>

lemmas train_defs = train_def prepare_data_def then_do_def split_data_def resample_data_def
  report_data_def scale_data_def choose_scaler_def apply_scaler_def fit_model_def

lemmas stub_defs = stub_lib_def demo_self_def demo_data_def TrainingBase_init_def
  stub_split_def stub_smote_def stub_transform_def keep_cells_def new_scaler_def

lemma then_do_preserves:
  assumes "P (snd r)" and "\<And>s. P s \<Longrightarrow> P (snd (f s))"
  shows "P (snd (then_do r f))"
  using assms by (simp add: then_do_def split: option.splits)






lemma nrows_take_rows: "x \<noteq> PyNone \<Longrightarrow> nrows (take_rows x ps) = length ps"
  by (cases x) auto









lemma split_data_frame:
  "data (snd (split_data lib self)) = data self \<and>
   outcome_pointer (snd (split_data lib self)) = outcome_pointer self"
  by (simp add: split_data_def Let_def split: sum.splits prod.splits)

lemma resample_data_frame:
  "data (snd (resample_data lib self r q)) = data self \<and>
   outcome_pointer (snd (resample_data lib self r q)) = outcome_pointer self"
  by (simp add: resample_data_def split: sum.splits prod.splits)

lemma report_data_frame:
  "data (snd (report_data self)) = data self \<and>
   outcome_pointer (snd (report_data self)) = outcome_pointer self"
  by (simp add: report_data_def)

lemma scale_data_frame:
  "data (snd (scale_data lib self sc tool)) = data self \<and>
   outcome_pointer (snd (scale_data lib self sc tool)) = outcome_pointer self"
  by (simp add: scale_data_def choose_scaler_def apply_scaler_def then_do_def Let_def
      split: sum.splits prod.splits option.splits)

lemma fit_model_frame:
  "data (snd (fit_model lib self e b v)) = data self \<and>
   outcome_pointer (snd (fit_model lib self e b v)) = outcome_pointer self"
  by (simp add: fit_model_def split: sum.splits prod.splits)

lemma demo_self_fields:
  "model demo_self = 0" "data demo_self = demo_data" "outcome_pointer demo_self = Some ''sick''"
  "scaling_tool demo_self = None" "X_test demo_self = PyNone" "y_test demo_self = PyNone"
  "history demo_self = None" "scaled_inputs demo_self = False"
  by (simp_all add: demo_self_def TrainingBase_init_def)

lemma stub_split_demo:
  "stub_split (DataFrame [''age''] [(0, [30]), (1, [40]), (2, [50]), (3, [60])])
              (DataFrame [''sick''] [(0, [0]), (1, [1]), (2, [1]), (3, [0])]) (33 / 100) 101
   = Inr (DataFrame [''age''] [(2, [50]), (3, [60])],
          DataFrame [''age''] [(0, [30]), (1, [40])],
          DataFrame [''sick''] [(2, [1]), (3, [0])],
          DataFrame [''sick''] [(0, [0]), (1, [1])])"
  by (simp add: stub_split_def Let_def upt_rec)

lemma stub_split_value:
  assumes "data s = demo_data" and "outcome_pointer s = Some ''sick''"
  shows "split_data stub_lib s =
     (None, s\<lparr>X := DataFrame [''age''] [(0, [30]), (1, [40]), (2, [50]), (3, [60])],
              y := DataFrame [''sick''] [(0, [0]), (1, [1]), (2, [1]), (3, [0])],
              input_order := Some [''age''],
              X_train := DataFrame [''age''] [(2, [50]), (3, [60])],
              X_test := DataFrame [''age''] [(0, [30]), (1, [40])],
              y_train := DataFrame [''sick''] [(2, [1]), (3, [0])],
              y_test := DataFrame [''sick''] [(0, [0]), (1, [1])]\<rparr>)"
proof -
  have "drop_column demo_data (Some ''sick'')
          = Inr (DataFrame [''age''] [(0, [30]), (1, [40]), (2, [50]), (3, [60])])"
    by (simp add: demo_data_def keep_cells_def)
  moreover have "getitem demo_data (Some ''sick'')
          = Inr (DataFrame [''sick''] [(0, [0]), (1, [1]), (2, [1]), (3, [0])])"
    by (simp add: demo_data_def keep_cells_def)
  moreover have "train_test_split stub_lib = stub_split" by (simp add: stub_lib_def)
  ultimately show ?thesis
    using assms by (simp add: split_data_def stub_split_demo Let_def del: One_nat_def)
qed

lemma stub_prepare_value:
  assumes "data s = demo_data" and "outcome_pointer s = Some ''sick''"
  shows "prepare_data stub_lib s False q =
     (None, s\<lparr>X := DataFrame [''age''] [(0, [30]), (1, [40]), (2, [50]), (3, [60])],
              y := DataFrame [''sick''] [(0, [0]), (1, [1]), (2, [1]), (3, [0])],
              input_order := Some [''age''],
              X_train := DataFrame [''age''] [(2, [50]), (3, [60])],
              X_test := DataFrame [''age''] [(0, [30]), (1, [40])],
              y_train := DataFrame [''sick''] [(2, [1]), (3, [0])],
              y_test := DataFrame [''sick''] [(0, [0]), (1, [1])],
              X_report := NdArray [[30], [40]],
              y_report := NdArray [[0], [1]]\<rparr>)"
  unfolding prepare_data_def stub_split_value [OF assms]
  by (simp add: then_do_def resample_data_def report_data_def)

lemma stub_plain_value:
  assumes "data s = demo_data" and "outcome_pointer s = Some ''sick''"
  shows "train stub_lib s False tool False q 5 32 0 =
     (None, s\<lparr>X := DataFrame [''age''] [(0, [30]), (1, [40]), (2, [50]), (3, [60])],
              y := DataFrame [''sick''] [(0, [0]), (1, [1]), (2, [1]), (3, [0])],
              input_order := Some [''age''],
              X_train := DataFrame [''age''] [(2, [50]), (3, [60])],
              X_test := DataFrame [''age''] [(0, [30]), (1, [40])],
              y_train := DataFrame [''sick''] [(2, [1]), (3, [0])],
              y_test := DataFrame [''sick''] [(0, [0]), (1, [1])],
              X_report := NdArray [[30], [40]],
              y_report := NdArray [[0], [1]],
              scaled_inputs := False,
              model := model s + 5,
              history := Some 5\<rparr>)"
  unfolding train_def stub_prepare_value [OF assms]
  by (simp add: then_do_def scale_data_def fit_model_def stub_lib_def)

lemma stub_scaled_value:
  assumes "data s = demo_data" and "outcome_pointer s = Some ''sick''"
  shows "train stub_lib s True ''standard'' False q 5 32 0 =
     (None, s\<lparr>X := DataFrame [''age''] [(0, [30]), (1, [40]), (2, [50]), (3, [60])],
              y := DataFrame [''sick''] [(0, [0]), (1, [1]), (2, [1]), (3, [0])],
              input_order := Some [''age''],
              y_train := DataFrame [''sick''] [(2, [1]), (3, [0])],
              y_test := DataFrame [''sick''] [(0, [0]), (1, [1])],
              X_report := NdArray [[30], [40]],
              y_report := NdArray [[0], [1]],
              scaled_inputs := True,
              scaling_tool := Some \<lparr>kind = StandardScaler,
                 fitted_on = Some (DataFrame [''age''] [(2, [50]), (3, [60])])\<rparr>,
              X_train := NdArray [[49], [59]],
              X_test := NdArray [[29], [39]],
              model := model s + 5,
              history := Some 5\<rparr>)"
  unfolding train_def stub_prepare_value [OF assms]
  by (simp add: then_do_def scale_data_def choose_scaler_def apply_scaler_def fit_model_def
      new_scaler_def stub_transform_def stub_lib_def)

lemma demo_scaled_fields:
  "scaled_inputs demo_scaled"
  "scaling_tool demo_scaled =
     Some \<lparr>kind = StandardScaler, fitted_on = Some (DataFrame [''age''] [(2, [50]), (3, [60])])\<rparr>"
  "model demo_scaled = 5" "data demo_scaled = demo_data"
  "outcome_pointer demo_scaled = Some ''sick''"
  by (simp_all add: demo_scaled_def stub_scaled_value demo_self_fields)

lemma demo_plain_fields:
  "X_test demo_plain = DataFrame [''age''] [(0, [30]), (1, [40])]"
  "y_test demo_plain = DataFrame [''sick''] [(0, [0]), (1, [1])]"
  "model demo_plain = 5" "scaling_tool demo_plain = None"
  by (simp_all add: demo_plain_def stub_plain_value demo_self_fields)

lemma predict_first_transform_irrelevant:
  "predict_first (lib\<lparr>scaler_transform := tf\<rparr>) m a = predict_first lib m a"
  by (simp add: predict_first_def)

lemma stub_predict_first:
  "predict_first stub_lib m (NdArray [[v]]) = Inr v"
  by (simp add: predict_first_def stub_lib_def)

lemma split_data_keeps:
  "model (snd (split_data lib self)) = model self \<and>
   scaling_tool (snd (split_data lib self)) = scaling_tool self \<and>
   scaled_inputs (snd (split_data lib self)) = scaled_inputs self \<and>
   history (snd (split_data lib self)) = history self"
  by (simp add: split_data_def Let_def split: sum.splits prod.splits)

lemma resample_data_keeps:
  "model (snd (resample_data lib self r q)) = model self \<and>
   scaling_tool (snd (resample_data lib self r q)) = scaling_tool self \<and>
   scaled_inputs (snd (resample_data lib self r q)) = scaled_inputs self \<and>
   history (snd (resample_data lib self r q)) = history self"
  by (simp add: resample_data_def split: sum.splits prod.splits)

lemma prepare_data_keeps:
  "model (snd (prepare_data lib self r q)) = model self \<and>
   scaling_tool (snd (prepare_data lib self r q)) = scaling_tool self \<and>
   scaled_inputs (snd (prepare_data lib self r q)) = scaled_inputs self \<and>
   history (snd (prepare_data lib self r q)) = history self"
  unfolding prepare_data_def
  by (intro then_do_preserves [where P = "\<lambda>s. model s = model self \<and>
        scaling_tool s = scaling_tool self \<and> scaled_inputs s = scaled_inputs self \<and>
        history s = history self"])
     (simp_all add: split_data_keeps resample_data_keeps report_data_def)



lemma train_after_prepare:
  assumes "prepare_data lib self r q = (None, s1)"
  shows "train lib self scale tool r q e b v =
           then_do (scale_data lib s1 scale tool) (\<lambda>s. fit_model lib s e b v)"
  using assms by (simp add: train_def then_do_def)

lemma train_prepare_fails:
  assumes "fst (prepare_data lib self r q) = Some x"
  shows "train lib self scale tool r q e b v = prepare_data lib self r q"
  using assms by (simp add: train_def then_do_def)












lemma stub_lib_fields:
  "train_test_split stub_lib = stub_split"
  "smote_fit_sample stub_lib = stub_smote"
  "scaler_transform stub_lib = stub_transform"
  "model_predict stub_lib = stub_predict"
  "model_predict_classes stub_lib = stub_predict_classes"
  "classification_report stub_lib = stub_report"
  by (simp_all add: stub_lib_def)

lemma stub_evaluate_plain:
  "evaluate_outcome stub_lib demo_plain
     = (Inr PyNone,
        demo_plain\<lparr>predictions := NdArray [[1], [1]],
                   general_report := ''precision recall f1-score support''\<rparr>,
        [''precision recall f1-score support''])"
  by (simp add: evaluate_outcome_def demo_plain_fields stub_lib_fields)














lemma stub_normalize_value:
  assumes "data s = demo_data" and "outcome_pointer s = Some ''sick''"
  shows "train stub_lib s True ''normalize'' False q e b v =
     (Some TypeError,
      s\<lparr>X := DataFrame [''age''] [(0, [30]), (1, [40]), (2, [50]), (3, [60])],
        y := DataFrame [''sick''] [(0, [0]), (1, [1]), (2, [1]), (3, [0])],
        input_order := Some [''age''],
        X_train := DataFrame [''age''] [(2, [50]), (3, [60])],
        X_test := DataFrame [''age''] [(0, [30]), (1, [40])],
        y_train := DataFrame [''sick''] [(2, [1]), (3, [0])],
        y_test := DataFrame [''sick''] [(0, [0]), (1, [1])],
        X_report := NdArray [[30], [40]],
        y_report := NdArray [[0], [1]],
        scaled_inputs := True\<rparr>)"
  unfolding train_after_prepare [OF stub_prepare_value [OF assms]]
  by (simp add: then_do_def scale_data_def choose_scaler_def)












section \<open>The claims\<close>

text \<open>
  C10. \<^verbatim>\<open>train\<close> never modifies the bound dataset or the name of the outcome column:
  whatever the arguments and whatever the libraries do, and also when \<^verbatim>\<open>train\<close> raises,
  the fields \<^verbatim>\<open>data\<close> and \<^verbatim>\<open>outcome_pointer\<close> after the call are those before it.
\<close>

theorem train_keeps_data:
  "data (snd (train lib self scale tool resample resample_ratio epochs batch_size verbose))
     = data self \<and>
   outcome_pointer (snd (train lib self scale tool resample resample_ratio epochs batch_size verbose))
     = outcome_pointer self"
  unfolding train_def prepare_data_def
  by (intro then_do_preserves [where P = "\<lambda>s. data s = data self \<and> outcome_pointer s = outcome_pointer self"])
     (simp_all add: split_data_frame resample_data_frame report_data_frame scale_data_frame fit_model_frame)

theorem train_keeps_data_witness:
  "data (snd (train stub_lib demo_self True ''min max'' False 1 5 32 0)) = demo_data \<and>
   outcome_pointer (snd (train stub_lib demo_self True ''min max'' False 1 5 32 0)) = Some ''sick''"
  using train_keeps_data [of stub_lib demo_self True "''min max''" False 1 5 32 0]
  by (simp add: demo_self_def)


text \<open>
  C3. For every input row and every value of \<^verbatim>\<open>override\<close>, \<^verbatim>\<open>calculate\<close> gives the
  same result (the same probability, or the same exception) with \<^verbatim>\<open>happening\<close> true and
  with \<^verbatim>\<open>happening\<close> false.
\<close>

theorem calculate_happening_irrelevant:
  "calculate lib self input_array True override = calculate lib self input_array False override"
  by (simp add: calculate_def split: sum.splits)

theorem calculate_happening_irrelevant_witness:
  "calculate stub_lib demo_scaled (NdArray [[30]]) True False = Inr 29 \<and>
   calculate stub_lib demo_scaled (NdArray [[30]]) False False = Inr 29"
proof -
  have "calculate stub_lib demo_scaled (NdArray [[30]]) True False = Inr 29"
    by (simp add: calculate_def demo_scaled_fields stub_lib_fields stub_transform_def
        stub_predict_first)
  then show ?thesis
    using calculate_happening_irrelevant [of stub_lib demo_scaled "NdArray [[30]]" False]
    by simp
qed




text \<open>
  C5. \<^verbatim>\<open>calculate\<close> applies the transform of the stored scaler exactly when the flag
  \<^verbatim>\<open>scaled_inputs\<close> is set and \<^verbatim>\<open>override\<close> is false: then the result is the prediction
  on the transformed row (or the exception of the transform). Otherwise the result is the
  prediction on the row as given, and neither the stored scaler nor the transform of the
  library has any influence on it, whatever scaler the object holds.
\<close>

theorem calculate_scaling_condition:
  "(scaled_inputs self \<and> \<not> override \<longrightarrow>
      calculate lib self input_array happening override =
        (case scaling_tool self of
           None \<Rightarrow> Inl AttributeError
         | Some sc \<Rightarrow>
             (case scaler_transform lib sc input_array of
                Inl e \<Rightarrow> Inl e
              | Inr a \<Rightarrow> predict_first lib (model self) a))) \<and>
   (\<not> (scaled_inputs self \<and> \<not> override) \<longrightarrow>
      calculate lib self input_array happening override
        = predict_first lib (model self) input_array \<and>
      (\<forall>tf sc. calculate (lib\<lparr>scaler_transform := tf\<rparr>) (self\<lparr>scaling_tool := sc\<rparr>)
                  input_array happening override
                = calculate lib self input_array happening override))"
  by (auto simp: calculate_def predict_first_transform_irrelevant split: sum.splits option.splits)

theorem calculate_scaling_condition_witness:
  "calculate stub_lib demo_scaled (NdArray [[30]]) True False = Inr 29 \<and>
   calculate stub_lib demo_scaled (NdArray [[30]]) True True = Inr 30"
proof -
  have "scaler_transform stub_lib
          \<lparr>kind = StandardScaler, fitted_on = Some (DataFrame [''age''] [(2, [50]), (3, [60])])\<rparr>
          (NdArray [[30]]) = Inr (NdArray [[29]])"
    by (simp add: stub_lib_def stub_transform_def)
  then have "calculate stub_lib demo_scaled (NdArray [[30]]) True False = Inr 29"
    using calculate_scaling_condition [of demo_scaled False stub_lib "NdArray [[30]]" True,
        THEN conjunct1]
    by (simp add: demo_scaled_fields stub_predict_first)
  moreover have "calculate stub_lib demo_scaled (NdArray [[30]]) True True = Inr 30"
    using calculate_scaling_condition [of demo_scaled True stub_lib "NdArray [[30]]" True,
        THEN conjunct2]
    by (simp add: stub_predict_first)
  ultimately show ?thesis by simp
qed



text \<open>
  C9. On an object whose scaler field still has its initial value \<^verbatim>\<open>None\<close>, \<^verbatim>\<open>train\<close>
  with \<^verbatim>\<open>scale\<close> set and a scaling tool that is none of \<^verbatim>\<open>'standard'\<close>, \<^verbatim>\<open>'min max'\<close>
  and \<^verbatim>\<open>'normalize'\<close> always fails: the scaler field stays \<^verbatim>\<open>None\<close>, the model is not
  fitted (model and history are untouched), and when the steps before the scaling return,
  the failure is the \<^verbatim>\<open>AttributeError\<close> of calling \<^verbatim>\<open>fit\<close> on \<^verbatim>\<open>None\<close>, with the flag
  \<^verbatim>\<open>scaled_inputs\<close> already set.
\<close>

theorem train_unknown_scaler_fails:
  assumes "scaling_tool self = None"
    and "tool \<noteq> ''standard''" and "tool \<noteq> ''min max''" and "tool \<noteq> ''normalize''"
  shows "fst (train lib self True tool r q e b v) \<noteq> None \<and>
         scaling_tool (snd (train lib self True tool r q e b v)) = None \<and>
         history (snd (train lib self True tool r q e b v)) = history self \<and>
         model (snd (train lib self True tool r q e b v)) = model self \<and>
         (\<forall>s1. prepare_data lib self r q = (None, s1) \<longrightarrow>
            train lib self True tool r q e b v
              = (Some AttributeError, s1\<lparr>scaled_inputs := True\<rparr>))"
proof (cases "fst (prepare_data lib self r q)")
  case (Some x)
  then have "train lib self True tool r q e b v = prepare_data lib self r q"
    by (rule train_prepare_fails)
  with Some assms(1) show ?thesis
    using prepare_data_keeps [of lib self r q] by auto
next
  case None
  then obtain s1 where p: "prepare_data lib self r q = (None, s1)"
    by (cases "prepare_data lib self r q") simp
  have keep: "scaling_tool s1 = None" "history s1 = history self" "model s1 = model self"
    using prepare_data_keeps [of lib self r q] p assms(1) by simp_all
  have "train lib self True tool r q e b v = (Some AttributeError, s1\<lparr>scaled_inputs := True\<rparr>)"
    unfolding train_after_prepare [OF p]
    using assms(2-4) keep(1)
    by (simp add: then_do_def scale_data_def choose_scaler_def apply_scaler_def)
  with p keep show ?thesis by simp
qed

theorem train_unknown_scaler_fails_witness:
  "fst (train stub_lib demo_self True ''robust'' False 1 5 32 0) = Some AttributeError \<and>
   scaling_tool (snd (train stub_lib demo_self True ''robust'' False 1 5 32 0)) = None \<and>
   history (snd (train stub_lib demo_self True ''robust'' False 1 5 32 0)) = None \<and>
   model (snd (train stub_lib demo_self True ''robust'' False 1 5 32 0)) = 0"
proof -
  note w = train_unknown_scaler_fails [of demo_self "''robust''" stub_lib False 1 5 32 0]
  have p: "prepare_data stub_lib demo_self False 1
             = (None, snd (prepare_data stub_lib demo_self False 1))"
    by (simp add: stub_prepare_value demo_self_fields)
  have "train stub_lib demo_self True ''robust'' False 1 5 32 0
          = (Some AttributeError,
             (snd (prepare_data stub_lib demo_self False 1))\<lparr>scaled_inputs := True\<rparr>)"
    using w p by (simp add: demo_self_fields)
  then show ?thesis
    by (simp add: stub_prepare_value demo_self_fields)
qed

text \<open>
  C4, at the third variant. With \<^verbatim>\<open>scale\<close> set and the scaling tool \<^verbatim>\<open>'normalize'\<close>,
  \<^verbatim>\<open>train\<close> fits no scaler and transforms nothing: whenever the steps before the
  scaling return, it raises \<^verbatim>\<open>TypeError\<close> at \<^verbatim>\<open>normalize()\<close>, leaving the features as
  they were split and the flag \<^verbatim>\<open>scaled_inputs\<close> set.
\<close>

theorem train_normalize_raises:
  assumes "prepare_data lib self r q = (None, s1)"
  shows "train lib self True ''normalize'' r q e b v
           = (Some TypeError, s1\<lparr>scaled_inputs := True\<rparr>)"
  unfolding train_after_prepare [OF assms]
  by (simp add: then_do_def scale_data_def choose_scaler_def)

theorem train_normalize_raises_witness:
  "fst (train stub_lib demo_self True ''normalize'' False 1 5 32 0) = Some TypeError \<and>
   scaling_tool (snd (train stub_lib demo_self True ''normalize'' False 1 5 32 0)) = None \<and>
   scaled_inputs (snd (train stub_lib demo_self True ''normalize'' False 1 5 32 0)) \<and>
   X_train (snd (train stub_lib demo_self True ''normalize'' False 1 5 32 0))
     = DataFrame [''age''] [(2, [50]), (3, [60])] \<and>
   history (snd (train stub_lib demo_self True ''normalize'' False 1 5 32 0)) = None"
  using train_normalize_raises [of stub_lib demo_self False 1 _ 5 32 0,
      OF stub_prepare_value [of demo_self 1]]
  by (simp add: demo_self_fields)






text \<open>
  C2, as the code has it. \<^verbatim>\<open>evaluate_outcome\<close> makes no check of its own, on any
  object: it hands the stored test features (\<^verbatim>\<open>None\<close> while no split was made) to
  \<^verbatim>\<open>predict_classes\<close> of the model and then the stored test labels to
  \<^verbatim>\<open>classification_report\<close>, so it fails exactly when one of the two raises, with the
  exception of that call, and returns otherwise; neither the flag \<^verbatim>\<open>trained\<close> nor the
  history that a completed \<^verbatim>\<open>train\<close> leaves has any influence on the outcome.
\<close>

theorem evaluate_outcome_no_check:
  "fst (evaluate_outcome lib self) =
     (case model_predict_classes lib (model self) (X_test self) of
        Inl e \<Rightarrow> Inl e
      | Inr p \<Rightarrow>
          (case classification_report lib (y_test self) p of
             Inl e \<Rightarrow> Inl e
           | Inr rep \<Rightarrow> Inr PyNone)) \<and>
   fst (evaluate_outcome lib (self\<lparr>trained := flag\<rparr>)) = fst (evaluate_outcome lib self) \<and>
   fst (evaluate_outcome lib (self\<lparr>history := h\<rparr>)) = fst (evaluate_outcome lib self)"
  by (simp add: evaluate_outcome_def Let_def split: sum.splits)

theorem evaluate_outcome_no_check_witness:
  "fst (evaluate_outcome stub_lib demo_self) = Inl ValueError \<and>
   fst (evaluate_outcome stub_lib (demo_self\<lparr>trained := True\<rparr>)) = Inl ValueError \<and>
   fst (evaluate_outcome stub_lib (demo_self\<lparr>history := Some 5\<rparr>)) = Inl ValueError"
  using evaluate_outcome_no_check [of stub_lib demo_self True "Some 5"]
  by (simp add: demo_self_fields stub_lib_fields)

text \<open>
  Before any call of \<^verbatim>\<open>train\<close>, with a model that rejects \<^verbatim>\<open>None\<close> by a
  \<^verbatim>\<open>ValueError\<close>, that exception is what the caller of \<^verbatim>\<open>evaluate_outcome\<close> gets, not
  a \<^verbatim>\<open>NotTrainedError\<close>. After a call of \<^verbatim>\<open>train\<close> that raised at \<^verbatim>\<open>normalize()\<close>,
  so never fitted the model, \<^verbatim>\<open>evaluate_outcome\<close> returns without any exception.
\<close>

theorem evaluate_outcome_untrained_counterexample:
  "fst (evaluate_outcome stub_lib demo_self) = Inl ValueError \<and>
   fst (evaluate_outcome stub_lib demo_self) \<noteq> Inl (OtherError ''NotTrainedError'') \<and>
   fst (train stub_lib demo_self True ''normalize'' False 1 5 32 0) = Some TypeError \<and>
   history (snd (train stub_lib demo_self True ''normalize'' False 1 5 32 0)) = None \<and>
   fst (evaluate_outcome stub_lib (snd (train stub_lib demo_self True ''normalize'' False 1 5 32 0)))
     = Inr PyNone"
proof -
  have "fst (evaluate_outcome stub_lib demo_self) = Inl ValueError"
    by (simp add: evaluate_outcome_def demo_self_fields stub_lib_fields)
  moreover have "fst (train stub_lib demo_self True ''normalize'' False 1 5 32 0) = Some TypeError"
    by (simp add: stub_normalize_value demo_self_fields)
  moreover have "history (snd (train stub_lib demo_self True ''normalize'' False 1 5 32 0)) = None"
    by (simp add: stub_normalize_value demo_self_fields)
  moreover have "fst (evaluate_outcome stub_lib
      (snd (train stub_lib demo_self True ''normalize'' False 1 5 32 0))) = Inr PyNone"
    by (simp add: stub_normalize_value demo_self_fields evaluate_outcome_def stub_lib_fields)
  ultimately show ?thesis by simp
qed


text \<open>
  C6, as the code has it. When the prediction over the stored test features and the
  report on the stored test labels both return, \<^verbatim>\<open>evaluate_outcome\<close> returns without an
  exception, stores the raw predictions in the field \<^verbatim>\<open>predictions\<close>, stores the report
  as a string in the field \<^verbatim>\<open>general_report\<close> and prints that string; it changes no
  other field.
\<close>

theorem evaluate_outcome_effect:
  assumes "model_predict_classes lib (model self) (X_test self) = Inr p"
    and "classification_report lib (y_test self) p = Inr rep"
  shows "\<exists>ret. evaluate_outcome lib self
           = (Inr ret, self\<lparr>predictions := p, general_report := rep\<rparr>, [rep])"
  using assms by (simp add: evaluate_outcome_def)

theorem evaluate_outcome_effect_witness:
  "model_predict_classes stub_lib (model demo_plain) (X_test demo_plain) = Inr (NdArray [[1], [1]]) \<and>
   classification_report stub_lib (y_test demo_plain) (NdArray [[1], [1]])
     = Inr ''precision recall f1-score support'' \<and>
   snd (evaluate_outcome stub_lib demo_plain)
     = (demo_plain\<lparr>predictions := NdArray [[1], [1]],
                   general_report := ''precision recall f1-score support''\<rparr>,
        [''precision recall f1-score support''])"
proof -
  have 1: "model_predict_classes stub_lib (model demo_plain) (X_test demo_plain)
             = Inr (NdArray [[1], [1]])"
    by (simp add: demo_plain_fields stub_lib_fields)
  have 2: "classification_report stub_lib (y_test demo_plain) (NdArray [[1], [1]])
             = Inr ''precision recall f1-score support''"
    by (simp add: demo_plain_fields stub_lib_fields)
  from evaluate_outcome_effect [OF 1 2] 1 2 show ?thesis by auto
qed


text \<open>
  What the method returns is Python's \<^verbatim>\<open>None\<close>: neither the predictions, which are
  only stored in the object, nor a report structure.
\<close>

theorem evaluate_outcome_return_counterexample:
  "fst (evaluate_outcome stub_lib demo_plain) = Inr PyNone \<and>
   predictions (fst (snd (evaluate_outcome stub_lib demo_plain))) = NdArray [[1], [1]] \<and>
   fst (evaluate_outcome stub_lib demo_plain)
     \<noteq> Inr (predictions (fst (snd (evaluate_outcome stub_lib demo_plain))))"
  by (simp add: stub_evaluate_plain)


text \<open>
  C8, as the code has it. When \<^verbatim>\<open>train\<close> is called with \<^verbatim>\<open>resample\<close> set and the
  oversampler raises on the training subset (for balanced classes or an invalid ratio, as
  the library decides), \<^verbatim>\<open>train\<close> fails with that very exception, whatever the other
  arguments: the object keeps the subsets as the split made them, and neither the report
  arrays, nor the scaling, nor the fit of the model are reached.
\<close>

theorem train_resample_error_propagates:
  assumes "split_data lib self = (None, s1)"
    and "smote_fit_sample lib q (X_train s1) (y_train s1) = Inl x"
  shows "train lib self scale tool True q e b v = (Some x, s1)"
  using assms by (simp add: train_def prepare_data_def then_do_def resample_data_def)

theorem train_resample_error_propagates_witness:
  "fst (split_data stub_lib demo_self) = None \<and>
   smote_fit_sample stub_lib 1 (X_train (snd (split_data stub_lib demo_self)))
       (y_train (snd (split_data stub_lib demo_self))) = Inl ValueError \<and>
   train stub_lib demo_self False ''standard'' True 1 5 32 0
     = (Some ValueError, snd (split_data stub_lib demo_self))"
proof -
  have 1: "split_data stub_lib demo_self = (None, snd (split_data stub_lib demo_self))"
    by (simp add: stub_split_value demo_self_fields)
  have 2: "smote_fit_sample stub_lib 1 (X_train (snd (split_data stub_lib demo_self)))
       (y_train (snd (split_data stub_lib demo_self))) = Inl ValueError"
    by (simp add: stub_split_value demo_self_fields stub_lib_fields stub_smote_def)
  have 3: "fst (split_data stub_lib demo_self) = None"
    by (simp add: stub_split_value demo_self_fields)
  from train_resample_error_propagates [OF 1 2] 2 3 show ?thesis by simp
qed


text \<open>
  With an oversampler that rejects balanced classes by a \<^verbatim>\<open>ValueError\<close>, as
  imbalanced-learn does, the caller of \<^verbatim>\<open>train\<close> gets that \<^verbatim>\<open>ValueError\<close> and no
  \<^verbatim>\<open>ResampleError\<close>.
\<close>

theorem train_resample_balanced_counterexample:
  "y_train (snd (split_data stub_lib demo_self)) = DataFrame [''sick''] [(2, [1]), (3, [0])] \<and>
   fst (train stub_lib demo_self False ''standard'' True 1 5 32 0) = Some ValueError \<and>
   fst (train stub_lib demo_self False ''standard'' True 1 5 32 0)
     \<noteq> Some (OtherError ''ResampleError'')"
  by (simp add: train_def prepare_data_def then_do_def resample_data_def
      stub_split_value demo_self_fields stub_lib_fields stub_smote_def)


end
